theory Spec2Isabelle
  imports Main
begin

section \<open>Python values and exceptions\<close>

text \<open>
  The nodes of this repository work on decoded JSON: Python \<open>None\<close>, \<open>bool\<close>, \<open>int\<close>,
  \<open>float\<close>, \<open>str\<close>, \<open>list\<close> and \<open>dict\<close> with string keys. A float is kept as sign,
  mantissa and binary exponent (or infinity, or NaN); only its truth value and its type are
  ever inspected by the code. A dict is the association list of its items in insertion
  order; lookup takes the first pair with the key.
\<close>

datatype error = AttributeError | TypeError | KeyError | IndexError | ValueError | ExternalError

datatype pyfloat = Finite bool nat int | Infinite bool | NaN

datatype json =
    JNull
  | JBool bool
  | JInt int
  | JFloat pyfloat
  | JStr string
  | JArr "json list"
  | JObj "(string \<times> json) list"


text \<open>Sequencing of computations that may raise: the first exception wins.\<close>

definition then_do :: "error + 'a \<Rightarrow> ('a \<Rightarrow> error + 'b) \<Rightarrow> error + 'b" where
  "then_do m f = (case m of Inl e \<Rightarrow> Inl e | Inr x \<Rightarrow> f x)"

text \<open>
  A \<open>for\<close> loop whose body only appends to one list: \<open>body x\<close> is what the body appends
  for the element \<open>x\<close>, or the exception it raises, which ends the loop.
\<close>

fun collect :: "('a \<Rightarrow> error + 'b list) \<Rightarrow> 'a list \<Rightarrow> error + 'b list" where
  "collect body [] = Inr []"
| "collect body (x # xs) =
     (case body x of
        Inl e \<Rightarrow> Inl e
      | Inr ys \<Rightarrow> (case collect body xs of Inl e \<Rightarrow> Inl e | Inr zs \<Rightarrow> Inr (ys @ zs)))"

text \<open>Truth value of a Python object, as \<open>if x\<close>, \<open>not x\<close> and \<open>x or y\<close> test it.\<close>

fun truthy :: "json \<Rightarrow> bool" where
  "truthy JNull = False"
| "truthy (JBool b) = b"
| "truthy (JInt i) = (i \<noteq> 0)"
| "truthy (JFloat (Finite s m e)) = (m \<noteq> 0)"
| "truthy (JFloat (Infinite s)) = True"
| "truthy (JFloat NaN) = True"
| "truthy (JStr s) = (s \<noteq> [])"
| "truthy (JArr xs) = (xs \<noteq> [])"
| "truthy (JObj kvs) = (kvs \<noteq> [])"

definition py_or :: "json \<Rightarrow> json \<Rightarrow> json" where
  "py_or a b = (if truthy a then a else b)"

text \<open>\<open>k in d\<close>, \<open>d.get(k, default)\<close> and \<open>d[k]\<close> on a dict.\<close>

definition has_key :: "(string \<times> json) list \<Rightarrow> string \<Rightarrow> bool" where
  "has_key d k = (map_of d k \<noteq> None)"

definition get :: "(string \<times> json) list \<Rightarrow> string \<Rightarrow> json \<Rightarrow> json" where
  "get d k dflt = (case map_of d k of None \<Rightarrow> dflt | Some v \<Rightarrow> v)"

definition dict_item :: "(string \<times> json) list \<Rightarrow> string \<Rightarrow> error + json" where
  "dict_item d k = (case map_of d k of None \<Rightarrow> Inl KeyError | Some v \<Rightarrow> Inr v)"

text \<open>\<open>x.get(k, default)\<close> on any object: only a dict has the method.\<close>

definition dict_get :: "json \<Rightarrow> string \<Rightarrow> json \<Rightarrow> error + json" where
  "dict_get x k dflt =
     (case x of JObj d \<Rightarrow> Inr (get d k dflt) | _ \<Rightarrow> Inl AttributeError)"

text \<open>The keys of a dict, each once, in the order of first insertion.\<close>

fun dict_keys :: "(string \<times> json) list \<Rightarrow> string list" where
  "dict_keys [] = []"
| "dict_keys ((k, v) # d) = k # filter (\<lambda>k'. k' \<noteq> k) (dict_keys d)"

text \<open>
  The elements a \<open>for\<close> loop (or \<open>list(x)\<close>) visits: the items of a list, the characters of
  a string, the keys of a dict; anything else is not iterable.
\<close>

fun py_iter :: "json \<Rightarrow> error + json list" where
  "py_iter (JArr xs) = Inr xs"
| "py_iter (JStr s) = Inr (map (\<lambda>c. JStr [c]) s)"
| "py_iter (JObj d) = Inr (map JStr (dict_keys d))"
| "py_iter JNull = Inl TypeError"
| "py_iter (JBool b) = Inl TypeError"
| "py_iter (JInt i) = Inl TypeError"
| "py_iter (JFloat f) = Inl TypeError"

text \<open>
  \<open>t in {"a", "b", ...}\<close> for a set of string constants: \<open>t\<close> is hashed first, which a
  list or a dict refuses; otherwise only an equal string is a member.
\<close>

fun in_str_set :: "json \<Rightarrow> string list \<Rightarrow> error + bool" where
  "in_str_set (JStr s) S = Inr (s \<in> set S)"
| "in_str_set (JArr xs) S = Inl TypeError"
| "in_str_set (JObj d) S = Inl TypeError"
| "in_str_set JNull S = Inr False"
| "in_str_set (JBool b) S = Inr False"
| "in_str_set (JInt i) S = Inr False"
| "in_str_set (JFloat f) S = Inr False"

text \<open>\<open>x[0]\<close>.\<close>

fun subscript0 :: "json \<Rightarrow> error + json" where
  "subscript0 (JArr []) = Inl IndexError"
| "subscript0 (JArr (x # xs)) = Inr x"
| "subscript0 (JStr []) = Inl IndexError"
| "subscript0 (JStr (c # s)) = Inr (JStr [c])"
| "subscript0 (JObj d) = Inl KeyError"
| "subscript0 JNull = Inl TypeError"
| "subscript0 (JBool b) = Inl TypeError"
| "subscript0 (JInt i) = Inl TypeError"
| "subscript0 (JFloat f) = Inl TypeError"

text \<open>\<open>isinstance(x, list)\<close> and \<open>isinstance(x, dict)\<close>.\<close>

fun is_list :: "json \<Rightarrow> bool" where
  "is_list (JArr xs) = True"
| "is_list _ = False"

fun is_dict :: "json \<Rightarrow> bool" where
  "is_dict (JObj d) = True"
| "is_dict _ = False"

text \<open>\<open>"".join(parts)\<close>: every part has to be a string.\<close>

fun str_join :: "json list \<Rightarrow> error + string" where
  "str_join [] = Inr []"
| "str_join (JStr s # ps) = (case str_join ps of Inl e \<Rightarrow> Inl e | Inr r \<Rightarrow> Inr (s @ r))"
| "str_join (p # ps) = Inl TypeError"

section \<open>custom\_openai\_chat\_completion.py: the response extractors\<close>

definition non_text_types :: "string list" where
  "non_text_types =
     [''function_call'', ''tool_call'', ''mcp_call'', ''mcp_approval_request'',
      ''mcp_list_tools'', ''tool_output'', ''reasoning'', ''code_interpreter'',
      ''computer_use'']"

text \<open>Body of the inner loop of \<open>_extract_text\<close>, over the content entries of a message.\<close>

definition content_entry_parts :: "json \<Rightarrow> error + json list" where
  "content_entry_parts c =
     then_do (dict_get c ''type'' JNull) (\<lambda>ct.
     then_do (in_str_set ct [''output_text'', ''input_text'']) (\<lambda>is_text.
       if is_text then
         then_do (dict_get c ''text'' JNull) (\<lambda>tx. Inr (if truthy tx then [tx] else []))
       else Inr []))"

text \<open>Body of the outer loop of \<open>_extract_text\<close>, over the items of \<open>output\<close>.\<close>

definition item_parts :: "json \<Rightarrow> error + json list" where
  "item_parts item =
     then_do (dict_get item ''type'' JNull) (\<lambda>t.
     then_do (in_str_set t non_text_types) (\<lambda>skip.
       if skip then Inr []
       else
         then_do
           (if t = JStr ''message'' then
              then_do (dict_get item ''content'' (JArr [])) (\<lambda>content.
              then_do (py_iter content) (collect content_entry_parts))
            else Inr []) (\<lambda>from_message.
         then_do
           (if t = JStr ''output_text'' then
              then_do (dict_get item ''text'' JNull) (\<lambda>tx. Inr (if truthy tx then [tx] else []))
            else Inr []) (\<lambda>standalone.
         Inr (from_message @ standalone)))))"

text \<open>\<open>_extract_text\<close>. The result is whatever object the branch returns, not always a string.\<close>

definition extract_text :: "(string \<times> json) list \<Rightarrow> error + json" where
  "extract_text data =
     (if has_key data ''output'' \<or> has_key data ''output_text'' then
        (if has_key data ''output_text'' then
           then_do (dict_item data ''output_text'') (\<lambda>ot. Inr (py_or ot (JStr [])))
         else
           then_do (py_iter (get data ''output'' (JArr []))) (\<lambda>items.
           then_do (collect item_parts items) (\<lambda>parts.
           then_do (str_join parts) (\<lambda>s. Inr (JStr s)))))
      else if get data ''object'' JNull = JStr ''chat.completion'' then
        (let choices = py_or (get data ''choices'' JNull) (JArr [])
         in if \<not> truthy choices then Inr (JStr [])
            else
              then_do (subscript0 choices) (\<lambda>choice.
              then_do (dict_get choice ''message'' (JObj [])) (\<lambda>msg.
              then_do (dict_get msg ''content'' JNull) (\<lambda>content.
              Inr (py_or content (JStr []))))))
      else
        (let choices = get data ''choices'' JNull
         in if truthy choices \<and> is_list choices then
              then_do (subscript0 choices) (\<lambda>choice.
              then_do (dict_get choice ''text'' (JStr [])) (\<lambda>tx.
              Inr (py_or tx (JStr []))))
            else Inr (JStr [])))"

text \<open>A normalized tool call, the dict literal both branches of \<open>_extract_tool_calls\<close> build.\<close>

definition ToolCall :: "json \<Rightarrow> json \<Rightarrow> json \<Rightarrow> json \<Rightarrow> json" where
  "ToolCall t i name arguments =
     JObj [(''type'', t), (''id'', i),
           (''function'', JObj [(''name'', name), (''arguments'', arguments)])]"

text \<open>Body of the Responses-API loop of \<open>_extract_tool_calls\<close>.\<close>

definition output_item_calls :: "json \<Rightarrow> error + json list" where
  "output_item_calls item =
     then_do (dict_get item ''type'' JNull) (\<lambda>t.
     then_do (in_str_set t [''function_call'', ''tool_call'', ''mcp_call'']) (\<lambda>is_call.
       if is_call then
         then_do (dict_get item ''id'' JNull) (\<lambda>i.
         then_do (if truthy i then Inr i else dict_get item ''call_id'' JNull) (\<lambda>call_id.
         then_do (dict_get item ''function'' (JObj [])) (\<lambda>fn.
         then_do (dict_get fn ''name'' (JStr [])) (\<lambda>name.
         then_do (dict_get item ''function'' (JObj [])) (\<lambda>fn'.
         then_do (dict_get fn' ''arguments'' (JStr [])) (\<lambda>arguments.
         Inr [ToolCall t call_id name arguments]))))))
       else Inr []))"

text \<open>Body of the Chat-Completions loop of \<open>_extract_tool_calls\<close>.\<close>

definition chat_tool_call :: "json \<Rightarrow> error + json list" where
  "chat_tool_call tc =
     then_do (dict_get tc ''function'' (JObj [])) (\<lambda>fn.
     then_do (dict_get tc ''type'' (JStr ''function'')) (\<lambda>t.
     then_do (dict_get tc ''id'' JNull) (\<lambda>i.
     then_do (dict_get fn ''name'' (JStr [])) (\<lambda>name.
     then_do (dict_get fn ''arguments'' (JStr [])) (\<lambda>arguments.
     Inr [ToolCall t i name arguments])))))"

definition extract_tool_calls :: "(string \<times> json) list \<Rightarrow> error + json list" where
  "extract_tool_calls data =
     (if has_key data ''output'' then
        then_do (dict_item data ''output'') (\<lambda>out.
        then_do (py_iter out) (collect output_item_calls))
      else if get data ''object'' JNull = JStr ''chat.completion'' then
        (let choices = py_or (get data ''choices'' JNull) (JArr [])
         in if \<not> truthy choices then Inr []
            else
              then_do (subscript0 choices) (\<lambda>choice.
              then_do (dict_get choice ''message'' (JObj [])) (\<lambda>msg.
              then_do (dict_get msg ''tool_calls'' JNull) (\<lambda>tcs.
              then_do (py_iter (py_or tcs (JArr []))) (collect chat_tool_call)))))
      else Inr [])"


section \<open>custom\_openai\_chat\_completion.py: the assistant turn appended by execute\<close>

text \<open>
  Python lists are objects with identity: \<open>list(messages)\<close> allocates a new list with the
  same items and \<open>append\<close> changes a list in place. A heap holds the list objects; a
  reference is the position of its list in the heap.
\<close>

type_synonym heap = "json list list"

definition list_copy :: "heap \<Rightarrow> nat \<Rightarrow> heap \<times> nat" where
  "list_copy h r = (h @ [h ! r], length h)"

definition list_append :: "heap \<Rightarrow> nat \<Rightarrow> json \<Rightarrow> heap" where
  "list_append h r x = h[r := h ! r @ [x]]"

text \<open>
  The dict literal \<open>{"role": "assistant", **(... if response_text else {}),
  **(... if tool_calls else {})}\<close>.
\<close>

definition assistant_message :: "json \<Rightarrow> json list \<Rightarrow> json" where
  "assistant_message response_text tool_calls =
     JObj ([(''role'', JStr ''assistant'')]
           @ (if truthy response_text
              then [(''content'', JArr [JObj [(''type'', JStr ''text''), (''text'', response_text)]])]
              else [])
           @ (if tool_calls \<noteq> [] then [(''tool_calls'', JArr tool_calls)] else []))"

text \<open>
  The construction of \<open>messages_out\<close> in \<open>CustomOpenAIChatCompletion.execute\<close>:
  \<open>messages\<close> is the reference of the decoded input list; the result is the new heap and
  the reference of \<open>messages_out\<close>.
\<close>

definition append_assistant_turn :: "heap \<Rightarrow> nat \<Rightarrow> json \<Rightarrow> json list \<Rightarrow> heap \<times> nat" where
  "append_assistant_turn h messages response_text tool_calls =
     (case list_copy h messages of
        (h', messages_out) \<Rightarrow>
          (list_append h' messages_out (assistant_message response_text tool_calls),
           messages_out))"

section \<open>custom\_openai\_chat\_completion.py: ChatMessagesCreate\<close>

text \<open>
  The loop over \<open>reversed(messages)\<close>; its state is \<open>tc_id\<close>, and the result is the value
  of \<open>tc_id\<close> when the loop ends or breaks.
\<close>

fun find_tc_id :: "json list \<Rightarrow> json \<Rightarrow> error + json" where
  "find_tc_id [] tc_id = Inr tc_id"
| "find_tc_id (prev # earlier) tc_id =
     (case dict_get prev ''role'' JNull of
        Inl e \<Rightarrow> Inl e
      | Inr role \<Rightarrow>
          if role \<noteq> JStr ''assistant'' then find_tc_id earlier tc_id
          else
            (case dict_get prev ''tool_calls'' JNull of
               Inl e \<Rightarrow> Inl e
             | Inr tc_list \<Rightarrow>
                 if is_list tc_list \<and> truthy tc_list then
                   (case tc_list of
                      JArr calls \<Rightarrow>
                        (let last_call = last calls;
                             tc_id' =
                               (case last_call of
                                  JObj d \<Rightarrow>
                                    py_or (get d ''id'' JNull)
                                      (py_or (get d ''call_id'' JNull) (JStr []))
                                | _ \<Rightarrow> tc_id)
                         in if truthy tc_id' then Inr tc_id' else find_tc_id earlier tc_id')
                    | _ \<Rightarrow> find_tc_id earlier tc_id)
                 else find_tc_id earlier tc_id))"

text \<open>
  \<open>ChatMessagesCreate.execute\<close>. The JSON codec and the host's \<open>tensor_to_data_uri\<close>
  are parameters; each may raise. The three definitions before it are the values of its
  local variables \<open>messages\<close>, \<open>content_parts\<close> and \<open>message_content\<close>.
\<close>

definition text_part :: "string \<Rightarrow> json" where
  "text_part content = JObj [(''type'', JStr ''text''), (''text'', JStr content)]"

definition image_part :: "string \<Rightarrow> json" where
  "image_part data_uri =
     JObj [(''type'', JStr ''image_url''),
           (''image_url'', JObj [(''url'', JStr data_uri), (''detail'', JStr ''auto'')])]"

definition load_messages :: "(string \<Rightarrow> error + json) \<Rightarrow> string \<Rightarrow> error + json list" where
  "load_messages loads messages_json =
     (if messages_json \<noteq> [] then then_do (loads messages_json) py_iter else Inr [])"

definition build_content_parts ::
  "('img \<Rightarrow> error + string) \<Rightarrow> string \<Rightarrow> 'img option \<Rightarrow> error + json list" where
  "build_content_parts tensor_to_data_uri content img =
     (let content_parts = (if content \<noteq> [] then [text_part content] else [])
      in case img of
           None \<Rightarrow> Inr content_parts
         | Some tensor \<Rightarrow>
             then_do (tensor_to_data_uri tensor) (\<lambda>data_uri.
             Inr (content_parts @ [image_part data_uri])))"

definition message_content :: "json list \<Rightarrow> string \<Rightarrow> json" where
  "message_content content_parts content =
     (if content_parts \<noteq> [] then JArr content_parts
      else if content \<noteq> [] then JArr [text_part content] else JArr [])"

definition ChatMessagesCreate_execute ::
  "(string \<Rightarrow> error + json) \<Rightarrow> (json \<Rightarrow> error + string) \<Rightarrow> ('img \<Rightarrow> error + string) \<Rightarrow>
   string \<Rightarrow> string \<Rightarrow> string \<Rightarrow> 'img option \<Rightarrow> error + string" where
  "ChatMessagesCreate_execute loads dumps tensor_to_data_uri messages_json role content img =
     then_do (load_messages loads messages_json) (\<lambda>messages.
     then_do (build_content_parts tensor_to_data_uri content img) (\<lambda>content_parts.
     let message = [(''role'', JStr role), (''content'', message_content content_parts content)]
     in then_do
          (if role = ''tool'' then
             then_do (find_tc_id (rev messages) (JStr [])) (\<lambda>tc_id.
               if \<not> truthy tc_id then Inl ValueError
               else Inr (message @ [(''tool_call_id'', tc_id)]))
           else Inr message)
          (\<lambda>message'. dumps (JArr (messages @ [JObj message'])))))"

section \<open>json\_path\_select.py\<close>

text \<open>\<open>str(n)\<close> for an integer: its decimal digits, with a minus sign when negative.\<close>

definition digit_char :: "nat \<Rightarrow> char" where
  "digit_char d = char_of (48 + d)"

function str_nat :: "nat \<Rightarrow> string" where
  "str_nat n = (if n < 10 then [digit_char n] else str_nat (n div 10) @ [digit_char (n mod 10)])"
  by pat_completeness auto
termination
  by (relation "measure (\<lambda>n. n)") auto

declare str_nat.simps [simp del]

definition str_int :: "int \<Rightarrow> string" where
  "str_int i = (if i < 0 then CHR ''-'' # str_nat (nat (- i)) else str_nat (nat i))"

text \<open>
  \<open>str(x)\<close> for \<open>x\<close> an instance of \<open>str\<close>, \<open>int\<close>, \<open>float\<close> or \<open>bool\<close>, and \<open>None\<close>
  for any other object (\<open>isinstance\<close> fails). The printing of a float is the parameter
  \<open>float_repr\<close>.
\<close>

fun str_scalar :: "(pyfloat \<Rightarrow> string) \<Rightarrow> json \<Rightarrow> string option" where
  "str_scalar float_repr (JStr s) = Some s"
| "str_scalar float_repr (JBool b) = Some (if b then ''True'' else ''False'')"
| "str_scalar float_repr (JInt i) = Some (str_int i)"
| "str_scalar float_repr (JFloat f) = Some (float_repr f)"
| "str_scalar float_repr JNull = None"
| "str_scalar float_repr (JArr xs) = None"
| "str_scalar float_repr (JObj d) = None"

text \<open>\<open>isinstance(x, (str, int, float, bool))\<close>.\<close>

fun isinstance_scalar :: "json \<Rightarrow> bool" where
  "isinstance_scalar (JStr s) = True"
| "isinstance_scalar (JInt i) = True"
| "isinstance_scalar (JFloat f) = True"
| "isinstance_scalar (JBool b) = True"
| "isinstance_scalar JNull = False"
| "isinstance_scalar (JArr xs) = False"
| "isinstance_scalar (JObj d) = False"

text \<open>
  \<open>try: body finally: ...\<close>. When the \<open>finally\<close> block itself returns, that return
  replaces whatever the body returned or raised; \<open>final_return\<close> is \<open>None\<close> when the
  block ends without returning.
\<close>

definition try_finally :: "error + 'a \<Rightarrow> (error + 'a) option \<Rightarrow> error + 'a" where
  "try_finally body final_return = (case final_return of None \<Rightarrow> body | Some r \<Rightarrow> r)"

text \<open>
  \<open>JSONPathSelect.execute\<close>. \<open>json.loads\<close>, \<open>jmespath.search\<close> and \<open>json.dumps\<close> are
  libraries outside the repository and are parameters; each may raise.
\<close>

definition JSONPathSelect_execute ::
  "(string \<Rightarrow> error + json) \<Rightarrow> (string \<Rightarrow> json \<Rightarrow> error + json) \<Rightarrow> (pyfloat \<Rightarrow> string) \<Rightarrow>
   (json \<Rightarrow> error + string) \<Rightarrow> string \<Rightarrow> string \<Rightarrow> error + string" where
  "JSONPathSelect_execute loads search float_repr dumps json_text path =
     (if json_text = [] \<or> path = [] then Inr []
      else
        then_do (loads json_text) (\<lambda>data.
          case search path data of
            Inl e \<Rightarrow> Inr []
          | Inr current \<Rightarrow>
              (case str_scalar float_repr current of
                 Some s \<Rightarrow> Inr s
               | None \<Rightarrow> try_finally (dumps current) (Some (Inr [])))))"

section \<open>wan\_video\_size.py\<close>

definition SIZE_TABLE :: "(string \<times> (string \<times> (int \<times> int)) list) list" where
  "SIZE_TABLE =
    [(''480p'',
        [(''landscape'', (640, 480)), (''portrait'', (480, 640)), (''square'', (480, 480))]),
     (''720p'',
        [(''landscape'', (1280, 720)), (''portrait'', (720, 1280)), (''square'', (720, 720))]),
     (''1080p'',
        [(''landscape'', (1920, 1088)), (''portrait'', (1088, 1920)), (''square'', (1088, 1088))])]"

text \<open>
  A tensor is modelled by its shape. \<open>image.shape[i]\<close> with a negative index counts from
  the end and raises IndexError out of range.
\<close>

definition shape_at :: "int list \<Rightarrow> int \<Rightarrow> error + int" where
  "shape_at shape i =
     (if 0 \<le> i \<and> i < int (length shape) then Inr (shape ! nat i)
      else if i < 0 \<and> - i \<le> int (length shape) then Inr (shape ! nat (int (length shape) + i))
      else Inl IndexError)"

text \<open>
  \<open>_orientation_from_image\<close>. The test \<open>diff / min_dim < threshold\<close> is a floating-point
  division and comparison; it is the parameter \<open>below_threshold diff min_dim\<close>.
\<close>

definition orientation_from_image :: "(int \<Rightarrow> int \<Rightarrow> bool) \<Rightarrow> int list \<Rightarrow> error + string" where
  "orientation_from_image below_threshold shape =
     (case shape_at shape (- 3) of
        Inl e \<Rightarrow> Inl e
      | Inr h \<Rightarrow>
          (case shape_at shape (- 2) of
             Inl e \<Rightarrow> Inl e
           | Inr w \<Rightarrow>
               if h \<le> 0 \<or> w \<le> 0 then Inl ValueError
               else
                 (let min_dim = min w h; diff = \<bar>w - h\<bar>
                  in if min_dim > 0 \<and> below_threshold diff min_dim then Inr ''square''
                     else if w > h then Inr ''landscape''
                     else if h > w then Inr ''portrait''
                     else Inr ''square'')))"

definition WanVideoSize_execute ::
  "(int \<Rightarrow> int \<Rightarrow> bool) \<Rightarrow> int list option \<Rightarrow> string \<Rightarrow> string \<Rightarrow> error + (int \<times> int)" where
  "WanVideoSize_execute below_threshold img resolution orientation =
     (case img of
        None \<Rightarrow> Inl ValueError
      | Some shape \<Rightarrow>
          (case (if orientation = ''auto'' then orientation_from_image below_threshold shape
                 else Inr orientation) of
             Inl e \<Rightarrow> Inl e
           | Inr orientation' \<Rightarrow>
               (case map_of SIZE_TABLE resolution of
                  None \<Rightarrow> Inl ValueError
                | Some resolution_sizes \<Rightarrow>
                    (case map_of resolution_sizes orientation' of
                       None \<Rightarrow> Inl ValueError
                     | Some (w, h) \<Rightarrow> Inr (w, h)))))"

section \<open>Shapes and expected results of the extractors\<close>

text \<open>
  The definitions of this section are not code of the repository: they state what the
  payloads look like and what the specification says the extractors return.
\<close>

text \<open>A field of an object, or the default when the field or the object is missing.\<close>

fun field :: "json \<Rightarrow> string \<Rightarrow> json \<Rightarrow> json" where
  "field (JObj d) k dflt = get d k dflt"
| "field JNull k dflt = dflt"
| "field (JBool b) k dflt = dflt"
| "field (JInt i) k dflt = dflt"
| "field (JFloat f) k dflt = dflt"
| "field (JStr s) k dflt = dflt"
| "field (JArr xs) k dflt = dflt"

text \<open>A value that can be a member of a set: anything but a list or a dict.\<close>

fun hashable :: "json \<Rightarrow> bool" where
  "hashable (JArr xs) = False"
| "hashable (JObj d) = False"
| "hashable JNull = True"
| "hashable (JBool b) = True"
| "hashable (JInt i) = True"
| "hashable (JFloat f) = True"
| "hashable (JStr s) = True"

text \<open>A text field: a string, or a false value such as null.\<close>

fun text_ok :: "json \<Rightarrow> bool" where
  "text_ok (JStr s) = True"
| "text_ok v = (\<not> truthy v)"

text \<open>The string in a text field; empty when the field holds no string.\<close>

fun str_of :: "json \<Rightarrow> string" where
  "str_of (JStr s) = s"
| "str_of v = []"

definition is_text_entry :: "json \<Rightarrow> bool" where
  "is_text_entry c =
     (field c ''type'' JNull = JStr ''output_text'' \<or> field c ''type'' JNull = JStr ''input_text'')"

definition wf_content_entry :: "json \<Rightarrow> bool" where
  "wf_content_entry c =
     (is_dict c \<and> hashable (field c ''type'' JNull) \<and>
      (is_text_entry c \<longrightarrow> text_ok (field c ''text'' JNull)))"

text \<open>
  An output item as the text extractor expects it: an object with a scalar type; a
  message holds a list of content entries (or none), an \<open>output_text\<close> item a text.
\<close>

definition wf_text_item :: "json \<Rightarrow> bool" where
  "wf_text_item item =
     (is_dict item \<and> hashable (field item ''type'' JNull) \<and>
      (field item ''type'' JNull = JStr ''message'' \<longrightarrow>
         (case field item ''content'' (JArr []) of
            JArr cs \<Rightarrow> list_all wf_content_entry cs
          | _ \<Rightarrow> False)) \<and>
      (field item ''type'' JNull = JStr ''output_text'' \<longrightarrow> text_ok (field item ''text'' JNull)))"

text \<open>The text the specification assigns to a content entry, an output item, an output list.\<close>

definition spec_entry_text :: "json \<Rightarrow> string" where
  "spec_entry_text c = (if is_text_entry c then str_of (field c ''text'' JNull) else [])"

definition spec_item_text :: "json \<Rightarrow> string" where
  "spec_item_text item =
     (if field item ''type'' JNull \<in> JStr ` set non_text_types then []
      else if field item ''type'' JNull = JStr ''message'' then
        concat (map spec_entry_text
          (case field item ''content'' (JArr []) of JArr cs \<Rightarrow> cs | _ \<Rightarrow> []))
      else if field item ''type'' JNull = JStr ''output_text'' then
        str_of (field item ''text'' JNull)
      else [])"

definition spec_output_text :: "json list \<Rightarrow> string" where
  "spec_output_text items = concat (map spec_item_text items)"

text \<open>Output items that are tool calls, and the shape the tool-call extractor expects.\<close>

definition is_call_item :: "json \<Rightarrow> bool" where
  "is_call_item item =
     (field item ''type'' JNull = JStr ''function_call'' \<or>
      field item ''type'' JNull = JStr ''tool_call'' \<or>
      field item ''type'' JNull = JStr ''mcp_call'')"

definition wf_call_item :: "json \<Rightarrow> bool" where
  "wf_call_item item =
     (is_dict item \<and> hashable (field item ''type'' JNull) \<and>
      (is_call_item item \<longrightarrow> is_dict (field item ''function'' (JObj []))))"

text \<open>
  The ToolCall of an output item. In \<open>spec_item_tool_call\<close> the id is the first
  non-null of \<open>id\<close> and \<open>call_id\<close>, as the specification words it; in
  \<open>item_tool_call\<close> it is the first of the two that is true in Python's sense.
\<close>

definition first_non_null :: "json \<Rightarrow> json \<Rightarrow> json" where
  "first_non_null a b = (if a \<noteq> JNull then a else b)"

definition spec_item_tool_call :: "json \<Rightarrow> json" where
  "spec_item_tool_call item =
     ToolCall (field item ''type'' JNull)
       (first_non_null (field item ''id'' JNull) (field item ''call_id'' JNull))
       (field (field item ''function'' (JObj [])) ''name'' (JStr []))
       (field (field item ''function'' (JObj [])) ''arguments'' (JStr []))"

definition item_tool_call :: "json \<Rightarrow> json" where
  "item_tool_call item =
     ToolCall (field item ''type'' JNull)
       (py_or (field item ''id'' JNull) (field item ''call_id'' JNull))
       (field (field item ''function'' (JObj [])) ''name'' (JStr []))
       (field (field item ''function'' (JObj [])) ''arguments'' (JStr []))"

text \<open>The ToolCall of an entry of \<open>choices[0].message.tool_calls\<close>.\<close>

definition spec_chat_tool_call :: "json \<Rightarrow> json" where
  "spec_chat_tool_call tc =
     ToolCall (field tc ''type'' (JStr ''function'')) (field tc ''id'' JNull)
       (field (field tc ''function'' (JObj [])) ''name'' (JStr []))
       (field (field tc ''function'' (JObj [])) ''arguments'' (JStr []))"

definition wf_chat_tool_call :: "json \<Rightarrow> bool" where
  "wf_chat_tool_call tc = (is_dict tc \<and> is_dict (field tc ''function'' (JObj [])))"

text \<open>The \<open>tool_calls\<close> of a message, defaulting to the empty list; \<open>None\<close> for any other value.\<close>

definition message_tool_calls :: "json \<Rightarrow> json list option" where
  "message_tool_calls msg =
     (case field msg ''tool_calls'' JNull of
        JArr tcs \<Rightarrow> Some tcs
      | v \<Rightarrow> if truthy v then None else Some [])"

text \<open>A legacy \<open>text\<close> field as the specification types it: absent, null or a string.\<close>

definition str_or_null :: "(string \<times> json) list \<Rightarrow> string \<Rightarrow> bool" where
  "str_or_null d k =
     (case map_of d k of None \<Rightarrow> True | Some JNull \<Rightarrow> True | Some (JStr s) \<Rightarrow> True | Some v \<Rightarrow> False)"

text \<open>
  Payloads on which \<open>_extract_text\<close> and \<open>_extract_tool_calls\<close> find, in the branch
  they take, the container types they walk through.
\<close>

definition text_shape_ok :: "(string \<times> json) list \<Rightarrow> bool" where
  "text_shape_ok data =
     (if has_key data ''output_text'' then True
      else if has_key data ''output'' then
        (case get data ''output'' JNull of
           JArr items \<Rightarrow> list_all wf_text_item items
         | _ \<Rightarrow> False)
      else if get data ''object'' JNull = JStr ''chat.completion'' then
        (\<not> truthy (get data ''choices'' JNull) \<or>
         (case get data ''choices'' JNull of
            JArr (choice # rest) \<Rightarrow> is_dict choice \<and> is_dict (field choice ''message'' (JObj []))
          | _ \<Rightarrow> False))
      else
        (case get data ''choices'' JNull of
           JArr (choice # rest) \<Rightarrow> is_dict choice
         | _ \<Rightarrow> True))"

definition calls_shape_ok :: "(string \<times> json) list \<Rightarrow> bool" where
  "calls_shape_ok data =
     (if has_key data ''output'' then
        (case get data ''output'' JNull of
           JArr items \<Rightarrow> list_all wf_call_item items
         | _ \<Rightarrow> False)
      else if get data ''object'' JNull = JStr ''chat.completion'' then
        (\<not> truthy (get data ''choices'' JNull) \<or>
         (case get data ''choices'' JNull of
            JArr (choice # rest) \<Rightarrow>
              is_dict choice \<and> is_dict (field choice ''message'' (JObj [])) \<and>
              (case message_tool_calls (field choice ''message'' (JObj [])) of
                 Some tcs \<Rightarrow> list_all wf_chat_tool_call tcs
               | None \<Rightarrow> False)
          | _ \<Rightarrow> False))
      else True)"

text \<open>A payload none of the three response shapes matches.\<close>

definition unrecognized :: "(string \<times> json) list \<Rightarrow> bool" where
  "unrecognized data =
     (\<not> has_key data ''output'' \<and> \<not> has_key data ''output_text'' \<and>
      get data ''object'' JNull \<noteq> JStr ''chat.completion'' \<and>
      \<not> (truthy (get data ''choices'' JNull) \<and> is_list (get data ''choices'' JNull)))"

section \<open>Tool-call ids in a message list\<close>

text \<open>
  The id an earlier message offers to a \<open>tool\<close> message: for an assistant message whose
  \<open>tool_calls\<close> is a non-empty list with an object as last entry, that entry's \<open>id\<close>,
  or else its \<open>call_id\<close>; the empty string in every other case.
\<close>

definition message_tool_id :: "json \<Rightarrow> json" where
  "message_tool_id m =
     (if field m ''role'' JNull = JStr ''assistant'' then
        (case field m ''tool_calls'' JNull of
           JArr (c # cs) \<Rightarrow>
             (case last (c # cs) of
                JObj d \<Rightarrow> py_or (get d ''id'' JNull) (py_or (get d ''call_id'' JNull) (JStr []))
              | _ \<Rightarrow> JStr [])
         | _ \<Rightarrow> JStr [])
      else JStr [])"

definition yields_tool_id :: "json \<Rightarrow> bool" where
  "yields_tool_id m = truthy (message_tool_id m)"

text \<open>
  The search as the specification words it: backwards to the first assistant message whose
  \<open>tool_calls\<close> is a non-empty list, and the id that message offers, if any.
\<close>

definition has_tool_calls :: "json \<Rightarrow> bool" where
  "has_tool_calls m =
     (field m ''role'' JNull = JStr ''assistant'' \<and>
      (case field m ''tool_calls'' JNull of JArr (c # cs) \<Rightarrow> True | _ \<Rightarrow> False))"

definition spec_tool_call_id :: "json list \<Rightarrow> json option" where
  "spec_tool_call_id messages =
     (case find has_tool_calls (rev messages) of
        None \<Rightarrow> None
      | Some m \<Rightarrow> if yields_tool_id m then Some (message_tool_id m) else None)"

section \<open>Theorems: the response extractors\<close>

lemma then_do_Inr [simp]: "then_do (Inr x) f = f x"
  by (simp add: then_do_def)

lemma then_do_Inl [simp]: "then_do (Inl e) f = Inl e"
  by (simp add: then_do_def)

lemma dict_get_JObj [simp]: "dict_get (JObj d) k dflt = Inr (get d k dflt)"
  by (simp add: dict_get_def)

lemma is_dict_iff: "is_dict v \<longleftrightarrow> (\<exists>d. v = JObj d)"
  by (cases v) simp_all

lemma in_str_set_hashable:
  "hashable t \<Longrightarrow> in_str_set t S = Inr (t \<in> JStr ` set S)"
  by (cases t) auto

lemma collect_pointwise:
  "(\<And>x. x \<in> set xs \<Longrightarrow> body x = Inr (g x)) \<Longrightarrow> collect body xs = Inr (concat (map g xs))"
  by (induction xs) simp_all

lemma concat_singletons: "concat (map (\<lambda>x. if P x then [h x] else []) xs) = map h (filter P xs)"
  by (induction xs) simp_all

lemma collect_strings:
  "(\<And>x. x \<in> set xs \<Longrightarrow> \<exists>ss. body x = Inr (map JStr ss) \<and> concat ss = g x) \<Longrightarrow>
   \<exists>ss. collect body xs = Inr (map JStr ss) \<and> concat ss = concat (map g xs)"
proof (induction xs)
  case Nil
  show ?case by simp
next
  case (Cons x xs)
  from Cons.prems obtain ss where x: "body x = Inr (map JStr ss)" "concat ss = g x"
    by auto
  from Cons obtain ts where xs: "collect body xs = Inr (map JStr ts)" "concat ts = concat (map g xs)"
    by auto
  have "collect body (x # xs) = Inr (map JStr (ss @ ts))"
    using x xs by simp
  moreover have "concat (ss @ ts) = concat (map g (x # xs))"
    using x xs by simp
  ultimately show ?case by blast
qed

lemma str_join_strings: "str_join (map JStr ss) = Inr (concat ss)"
  by (induction ss) simp_all

lemma text_field_parts:
  "text_ok v \<Longrightarrow> \<exists>ss. (if truthy v then [v] else []) = map JStr ss \<and> concat ss = str_of v"
proof (cases "truthy v")
  case True
  assume "text_ok v"
  with True obtain s where "v = JStr s" by (cases v) auto
  then have "(if truthy v then [v] else []) = map JStr [s] \<and> concat [s] = str_of v"
    using True by simp
  then show ?thesis by blast
next
  case False
  then have "str_of v = []" by (cases v) auto
  with False have "(if truthy v then [v] else []) = map JStr [] \<and> concat [] = str_of v"
    by simp
  then show ?thesis by blast
qed

lemma content_entry_parts_wf:
  assumes "wf_content_entry c"
  shows "\<exists>ss. content_entry_parts c = Inr (map JStr ss) \<and> concat ss = spec_entry_text c"
proof -
  from assms obtain d where c: "c = JObj d"
    by (auto simp: wf_content_entry_def is_dict_iff)
  from assms c have h: "hashable (get d ''type'' JNull)"
    by (simp add: wf_content_entry_def)
  show ?thesis
  proof (cases "is_text_entry c")
    case True
    with assms have "text_ok (get d ''text'' JNull)"
      by (simp add: wf_content_entry_def c)
    from text_field_parts [OF this] obtain ss where
      ss: "(if truthy (get d ''text'' JNull) then [get d ''text'' JNull] else []) = map JStr ss"
          "concat ss = str_of (get d ''text'' JNull)"
      by blast
    have "content_entry_parts c = Inr (map JStr ss)"
      using True ss(1) c h
      by (auto simp: content_entry_parts_def in_str_set_hashable is_text_entry_def)
    moreover have "concat ss = spec_entry_text c"
      using True ss(2) c by (simp add: spec_entry_text_def)
    ultimately show ?thesis by blast
  next
    case False
    then have "content_entry_parts c = Inr (map JStr [])"
      using c h by (auto simp: content_entry_parts_def in_str_set_hashable is_text_entry_def)
    moreover have "concat [] = spec_entry_text c"
      using False by (simp add: spec_entry_text_def)
    ultimately show ?thesis by blast
  qed
qed

lemma JStr_image_iff [simp]: "JStr s \<in> JStr ` S \<longleftrightarrow> s \<in> S"
  by auto

lemma non_text_types_not_text:
  "''message'' \<notin> set non_text_types" "''output_text'' \<notin> set non_text_types"
  by (simp_all add: non_text_types_def)

lemma item_parts_wf:
  assumes "wf_text_item item"
  shows "\<exists>ss. item_parts item = Inr (map JStr ss) \<and> concat ss = spec_item_text item"
proof -
  from assms obtain d where item: "item = JObj d"
    by (auto simp: wf_text_item_def is_dict_iff)
  define t where "t = get d ''type'' JNull"
  from assms item have h: "hashable t"
    by (simp add: wf_text_item_def t_def)
  consider (skipped) "t \<in> JStr ` set non_text_types"
    | (msg_item) "t = JStr ''message''"
    | (text_item) "t = JStr ''output_text''"
    | (other_item) "t \<notin> JStr ` set non_text_types" "t \<noteq> JStr ''message''" "t \<noteq> JStr ''output_text''"
    by blast
  then show ?thesis
  proof cases
    case skipped
    then have "item_parts item = Inr (map JStr [])"
      using h by (simp add: item_parts_def item t_def [symmetric] in_str_set_hashable)
    moreover have "concat [] = spec_item_text item"
      using skipped by (simp add: spec_item_text_def item t_def [symmetric])
    ultimately show ?thesis by blast
  next
    case msg_item
    with assms obtain cs where cs: "get d ''content'' (JArr []) = JArr cs" "list_all wf_content_entry cs"
      by (auto simp: wf_text_item_def item t_def split: json.splits)
    have "\<exists>ss. collect content_entry_parts cs = Inr (map JStr ss) \<and>
            concat ss = concat (map spec_entry_text cs)"
      using cs(2) by (intro collect_strings content_entry_parts_wf) (simp add: list_all_iff)
    then obtain ss where ss: "collect content_entry_parts cs = Inr (map JStr ss)"
      "concat ss = concat (map spec_entry_text cs)"
      by blast
    have "item_parts item = Inr (map JStr ss)"
      using msg_item ss(1) cs(1) non_text_types_not_text
      by (simp add: item_parts_def item t_def [symmetric] in_str_set_hashable)
    moreover have "concat ss = spec_item_text item"
      using msg_item ss(2) cs(1) non_text_types_not_text
      by (simp add: spec_item_text_def item t_def [symmetric])
    ultimately show ?thesis by blast
  next
    case text_item
    with assms have "text_ok (get d ''text'' JNull)"
      by (simp add: wf_text_item_def item t_def)
    from text_field_parts [OF this] obtain ss where
      ss: "(if truthy (get d ''text'' JNull) then [get d ''text'' JNull] else []) = map JStr ss"
          "concat ss = str_of (get d ''text'' JNull)"
      by blast
    have "item_parts item = Inr (map JStr ss)"
      using text_item ss(1) non_text_types_not_text
      by (simp add: item_parts_def item t_def [symmetric] in_str_set_hashable)
    moreover have "concat ss = spec_item_text item"
      using text_item ss(2) non_text_types_not_text
      by (simp add: spec_item_text_def item t_def [symmetric])
    ultimately show ?thesis by blast
  next
    case other_item
    then have "item_parts item = Inr (map JStr [])"
      using h by (simp add: item_parts_def item t_def [symmetric] in_str_set_hashable)
    moreover have "concat [] = spec_item_text item"
      using other_item by (simp add: spec_item_text_def item t_def [symmetric])
    ultimately show ?thesis by blast
  qed
qed

lemma output_text_wf:
  assumes "list_all wf_text_item items"
  shows "then_do (collect item_parts items) (\<lambda>parts. then_do (str_join parts) (\<lambda>s. Inr (JStr s)))
           = Inr (JStr (spec_output_text items))"
proof -
  have "\<exists>ss. collect item_parts items = Inr (map JStr ss) \<and>
          concat ss = concat (map spec_item_text items)"
    using assms by (intro collect_strings item_parts_wf) (simp add: list_all_iff)
  then obtain ss where "collect item_parts items = Inr (map JStr ss)"
    "concat ss = concat (map spec_item_text items)"
    by blast
  then show ?thesis
    by (simp add: str_join_strings spec_output_text_def)
qed

text \<open>
  Claim C4. For a response that lacks \<open>output_text\<close> and whose \<open>output\<close> is a list of
  output items (objects with a scalar type, message content a list of entry objects, texts
  strings or null), \<open>_extract_text\<close> returns the concatenation, in order and without
  separator, of the texts of the \<open>output_text\<close> and \<open>input_text\<close> entries of message
  items and of the texts of \<open>output_text\<close> items; items of a type in the skip set
  contribute nothing.
\<close>

theorem extract_text_output_concat:
  assumes "\<not> has_key data ''output_text''"
    and "map_of data ''output'' = Some (JArr items)"
    and "list_all wf_text_item items"
  shows "extract_text data = Inr (JStr (spec_output_text items))"
  using assms(1,2) output_text_wf [OF assms(3)]
  by (simp add: extract_text_def has_key_def get_def)


theorem extract_text_output_concat_witness:
  "\<not> has_key
       [(''output'',
         JArr [JObj [(''type'', JStr ''reasoning''), (''text'', JStr ''hidden'')],
               JObj [(''type'', JStr ''message''),
                     (''content'',
                      JArr [JObj [(''type'', JStr ''output_text''), (''text'', JStr ''a'')],
                            JObj [(''type'', JStr ''output_text''), (''text'', JStr ''b'')]])]])]
       ''output_text'' \<and>
   list_all wf_text_item
     [JObj [(''type'', JStr ''reasoning''), (''text'', JStr ''hidden'')],
      JObj [(''type'', JStr ''message''),
            (''content'',
             JArr [JObj [(''type'', JStr ''output_text''), (''text'', JStr ''a'')],
                   JObj [(''type'', JStr ''output_text''), (''text'', JStr ''b'')]])]] \<and>
   extract_text
     [(''output'',
       JArr [JObj [(''type'', JStr ''reasoning''), (''text'', JStr ''hidden'')],
             JObj [(''type'', JStr ''message''),
                   (''content'',
                    JArr [JObj [(''type'', JStr ''output_text''), (''text'', JStr ''a'')],
                          JObj [(''type'', JStr ''output_text''), (''text'', JStr ''b'')]])]])]
     = Inr (JStr ''ab'')"
  using extract_text_output_concat
    [of "[(''output'',
         JArr [JObj [(''type'', JStr ''reasoning''), (''text'', JStr ''hidden'')],
               JObj [(''type'', JStr ''message''),
                     (''content'',
                      JArr [JObj [(''type'', JStr ''output_text''), (''text'', JStr ''a'')],
                            JObj [(''type'', JStr ''output_text''), (''text'', JStr ''b'')]])]])]"
        "[JObj [(''type'', JStr ''reasoning''), (''text'', JStr ''hidden'')],
          JObj [(''type'', JStr ''message''),
                (''content'',
                 JArr [JObj [(''type'', JStr ''output_text''), (''text'', JStr ''a'')],
                       JObj [(''type'', JStr ''output_text''), (''text'', JStr ''b'')]])]]"]
  by (simp add: has_key_def wf_text_item_def wf_content_entry_def is_text_entry_def get_def
      spec_output_text_def spec_item_text_def spec_entry_text_def non_text_types_def)

subsection \<open>Tool calls of the Responses-API shape\<close>

lemma output_item_calls_wf:
  assumes "wf_call_item item"
  shows "output_item_calls item = Inr (if is_call_item item then [item_tool_call item] else [])"
proof -
  from assms obtain d where item: "item = JObj d"
    by (auto simp: wf_call_item_def is_dict_iff)
  from assms item have h: "hashable (get d ''type'' JNull)"
    by (simp add: wf_call_item_def)
  show ?thesis
  proof (cases "is_call_item item")
    case True
    with assms item obtain fn where fn: "get d ''function'' (JObj []) = JObj fn"
      by (auto simp: wf_call_item_def is_dict_iff)
    from True have "get d ''type'' JNull \<in> JStr ` set [''function_call'', ''tool_call'', ''mcp_call'']"
      by (auto simp: is_call_item_def item)
    then show ?thesis
      using True fn h
      by (simp add: output_item_calls_def item in_str_set_hashable item_tool_call_def py_or_def)
  next
    case False
    then have "get d ''type'' JNull \<notin> JStr ` set [''function_call'', ''tool_call'', ''mcp_call'']"
      by (auto simp: is_call_item_def item)
    then show ?thesis
      using False h by (simp add: output_item_calls_def item in_str_set_hashable)
  qed
qed

lemma output_calls_wf:
  assumes "list_all wf_call_item items"
  shows "collect output_item_calls items = Inr (map item_tool_call (filter is_call_item items))"
proof -
  have "collect output_item_calls items =
          Inr (concat (map (\<lambda>item. if is_call_item item then [item_tool_call item] else []) items))"
    using assms by (intro collect_pointwise output_item_calls_wf) (simp add: list_all_iff)
  then show ?thesis
    by (simp add: concat_singletons)
qed

text \<open>
  Claim C3, amended. For a response whose \<open>output\<close> is a list of output items (objects
  with a scalar type; the \<open>function\<close> of a call item an object when present),
  \<open>_extract_tool_calls\<close> returns exactly one ToolCall per item of type
  \<open>function_call\<close>, \<open>tool_call\<close> or \<open>mcp_call\<close>, in order; its type is the item's type,
  its id is the item's \<open>id\<close> when that is true in Python's sense (not null, not empty)
  and the item's \<open>call_id\<close> otherwise, and name and arguments come from the nested
  \<open>function\<close> object, empty when absent. This list is the result whatever else the
  response holds, so the Chat-Completions branch is never reached.
\<close>

theorem extract_tool_calls_output:
  assumes "map_of data ''output'' = Some (JArr items)"
    and "list_all wf_call_item items"
  shows "extract_tool_calls data = Inr (map item_tool_call (filter is_call_item items))"
  using assms(1) output_calls_wf [OF assms(2)]
  by (simp add: extract_tool_calls_def has_key_def dict_item_def)

theorem extract_tool_calls_output_witness:
  "map_of [(''object'', JStr ''chat.completion''),
           (''output'', JArr [JObj [(''type'', JStr ''reasoning'')],
                              JObj [(''type'', JStr ''function_call''), (''call_id'', JStr ''c1'')]])]
     ''output''
     = Some (JArr [JObj [(''type'', JStr ''reasoning'')],
                   JObj [(''type'', JStr ''function_call''), (''call_id'', JStr ''c1'')]]) \<and>
   list_all wf_call_item
     [JObj [(''type'', JStr ''reasoning'')],
      JObj [(''type'', JStr ''function_call''), (''call_id'', JStr ''c1'')]] \<and>
   extract_tool_calls
     [(''object'', JStr ''chat.completion''),
      (''output'', JArr [JObj [(''type'', JStr ''reasoning'')],
                         JObj [(''type'', JStr ''function_call''), (''call_id'', JStr ''c1'')]])]
     = Inr [ToolCall (JStr ''function_call'') (JStr ''c1'') (JStr []) (JStr [])]"
  using extract_tool_calls_output
    [of "[(''object'', JStr ''chat.completion''),
          (''output'', JArr [JObj [(''type'', JStr ''reasoning'')],
                             JObj [(''type'', JStr ''function_call''), (''call_id'', JStr ''c1'')]])]"
        "[JObj [(''type'', JStr ''reasoning'')],
          JObj [(''type'', JStr ''function_call''), (''call_id'', JStr ''c1'')]]"]
  by (simp add: wf_call_item_def is_call_item_def item_tool_call_def get_def py_or_def)

text \<open>
  The claim as the specification words it, with the first non-null of \<open>id\<close> and
  \<open>call_id\<close>, fails on an item whose \<open>id\<close> is the empty string: the code takes the
  \<open>call_id\<close>.
\<close>

theorem extract_tool_calls_output_counterexample:
  "extract_tool_calls
     [(''output'', JArr [JObj [(''type'', JStr ''function_call''), (''id'', JStr []),
                               (''call_id'', JStr ''c1'')]])]
     = Inr [ToolCall (JStr ''function_call'') (JStr ''c1'') (JStr []) (JStr [])] \<and>
   map spec_item_tool_call
     (filter is_call_item
        [JObj [(''type'', JStr ''function_call''), (''id'', JStr []), (''call_id'', JStr ''c1'')]])
     = [ToolCall (JStr ''function_call'') (JStr []) (JStr []) (JStr [])] \<and>
   extract_tool_calls
     [(''output'', JArr [JObj [(''type'', JStr ''function_call''), (''id'', JStr []),
                               (''call_id'', JStr ''c1'')]])]
     \<noteq> Inr (map spec_item_tool_call
         (filter is_call_item
            [JObj [(''type'', JStr ''function_call''), (''id'', JStr []),
                   (''call_id'', JStr ''c1'')]]))"
  by (simp add: extract_tool_calls_def has_key_def dict_item_def output_item_calls_def get_def
      is_call_item_def spec_item_tool_call_def first_non_null_def ToolCall_def)

subsection \<open>Tool calls of the Chat-Completions shape\<close>

lemma chat_tool_call_wf:
  assumes "wf_chat_tool_call tc"
  shows "chat_tool_call tc = Inr [spec_chat_tool_call tc]"
proof -
  from assms obtain d where tc: "tc = JObj d"
    by (auto simp: wf_chat_tool_call_def is_dict_iff)
  with assms obtain fn where "get d ''function'' (JObj []) = JObj fn"
    by (auto simp: wf_chat_tool_call_def is_dict_iff)
  then show ?thesis
    by (simp add: chat_tool_call_def tc spec_chat_tool_call_def)
qed

lemma chat_calls_wf:
  assumes "list_all wf_chat_tool_call tcs"
  shows "collect chat_tool_call tcs = Inr (map spec_chat_tool_call tcs)"
proof -
  have "collect chat_tool_call tcs = Inr (concat (map (\<lambda>tc. [spec_chat_tool_call tc]) tcs))"
    using assms by (intro collect_pointwise chat_tool_call_wf) (simp add: list_all_iff)
  then show ?thesis
    by (simp add: concat_map_singleton)
qed

lemma message_tool_calls_iter:
  "message_tool_calls (JObj msg) = Some tcs \<Longrightarrow>
   py_iter (py_or (get msg ''tool_calls'' JNull) (JArr [])) = Inr tcs"
  by (cases "get msg ''tool_calls'' JNull")
    (auto simp: message_tool_calls_def py_or_def split: if_splits)

lemma extract_tool_calls_chat_choice:
  assumes "\<not> has_key data ''output''"
    and "get data ''object'' JNull = JStr ''chat.completion''"
    and "get data ''choices'' JNull = JArr (JObj choice # rest)"
    and "get choice ''message'' (JObj []) = JObj msg"
    and "message_tool_calls (JObj msg) = Some tcs"
    and "list_all wf_chat_tool_call tcs"
  shows "extract_tool_calls data = Inr (map spec_chat_tool_call tcs)"
  using assms(1-4) message_tool_calls_iter [OF assms(5)] chat_calls_wf [OF assms(6)]
  by (simp add: extract_tool_calls_def py_or_def)

text \<open>
  Claim C5. For a response without \<open>output\<close> whose \<open>object\<close> is \<open>chat.completion\<close>:
  when \<open>choices\<close> is empty (or absent or null) \<open>_extract_tool_calls\<close> returns the empty
  list; when \<open>choices\<close> is a list headed by a choice object, it maps the entries of the
  \<open>tool_calls\<close> of the choice's message (no entries when the field is absent or null), in
  order, each to a ToolCall whose type is the entry's type or \<open>function\<close> when absent,
  whose id is the entry's id as it is, and whose name and arguments come from the nested
  \<open>function\<close> object, empty when absent.
\<close>

theorem extract_tool_calls_chat:
  assumes "\<not> has_key data ''output''"
    and "get data ''object'' JNull = JStr ''chat.completion''"
  shows "(\<not> truthy (get data ''choices'' JNull) \<longrightarrow> extract_tool_calls data = Inr []) \<and>
         (get data ''choices'' JNull = JArr (JObj choice # rest) \<and>
          get choice ''message'' (JObj []) = JObj msg \<and>
          message_tool_calls (JObj msg) = Some tcs \<and>
          list_all wf_chat_tool_call tcs \<longrightarrow>
          extract_tool_calls data = Inr (map spec_chat_tool_call tcs))"
proof (intro conjI impI)
  assume "\<not> truthy (get data ''choices'' JNull)"
  with assms show "extract_tool_calls data = Inr []"
    by (simp add: extract_tool_calls_def py_or_def)
next
  assume "get data ''choices'' JNull = JArr (JObj choice # rest) \<and>
          get choice ''message'' (JObj []) = JObj msg \<and>
          message_tool_calls (JObj msg) = Some tcs \<and>
          list_all wf_chat_tool_call tcs"
  then have "get data ''choices'' JNull = JArr (JObj choice # rest)"
    and "get choice ''message'' (JObj []) = JObj msg"
    and "message_tool_calls (JObj msg) = Some tcs"
    and "list_all wf_chat_tool_call tcs"
    by simp_all
  with assms show "extract_tool_calls data = Inr (map spec_chat_tool_call tcs)"
    by (rule extract_tool_calls_chat_choice)
qed

theorem extract_tool_calls_chat_witness:
  "\<not> has_key [(''object'', JStr ''chat.completion''), (''choices'', JArr [])] ''output'' \<and>
   \<not> truthy (get [(''object'', JStr ''chat.completion''), (''choices'', JArr [])] ''choices'' JNull) \<and>
   extract_tool_calls [(''object'', JStr ''chat.completion''), (''choices'', JArr [])] = Inr [] \<and>
   \<not> has_key
       [(''object'', JStr ''chat.completion''),
        (''choices'',
         JArr [JObj [(''message'',
           JObj [(''tool_calls'',
             JArr [JObj [(''id'', JStr ''c1''),
                         (''function'', JObj [(''name'', JStr ''f''), (''arguments'', JStr ''{}'')])]])])]])]
       ''output'' \<and>
   list_all wf_chat_tool_call
     [JObj [(''id'', JStr ''c1''),
            (''function'', JObj [(''name'', JStr ''f''), (''arguments'', JStr ''{}'')])]] \<and>
   extract_tool_calls
     [(''object'', JStr ''chat.completion''),
      (''choices'',
       JArr [JObj [(''message'',
         JObj [(''tool_calls'',
           JArr [JObj [(''id'', JStr ''c1''),
                       (''function'', JObj [(''name'', JStr ''f''), (''arguments'', JStr ''{}'')])]])])]])]
     = Inr [JObj [(''type'', JStr ''function''), (''id'', JStr ''c1''),
                  (''function'', JObj [(''name'', JStr ''f''), (''arguments'', JStr ''{}'')])]]"
  using
    extract_tool_calls_chat
      [of "[(''object'', JStr ''chat.completion''), (''choices'', JArr [])]"]
    extract_tool_calls_chat
      [of "[(''object'', JStr ''chat.completion''),
            (''choices'',
             JArr [JObj [(''message'',
               JObj [(''tool_calls'',
                 JArr [JObj [(''id'', JStr ''c1''),
                             (''function'', JObj [(''name'', JStr ''f''), (''arguments'', JStr ''{}'')])]])])]])]"
          "[(''message'',
               JObj [(''tool_calls'',
                 JArr [JObj [(''id'', JStr ''c1''),
                             (''function'', JObj [(''name'', JStr ''f''), (''arguments'', JStr ''{}'')])]])])]"
          "[]"
          "[(''tool_calls'',
                 JArr [JObj [(''id'', JStr ''c1''),
                             (''function'', JObj [(''name'', JStr ''f''), (''arguments'', JStr ''{}'')])]])]"
          "[JObj [(''id'', JStr ''c1''),
                  (''function'', JObj [(''name'', JStr ''f''), (''arguments'', JStr ''{}'')])]]"]
  by (simp add: has_key_def get_def message_tool_calls_def wf_chat_tool_call_def
      spec_chat_tool_call_def ToolCall_def)

subsection \<open>The legacy Completions shape\<close>

text \<open>
  Claim C8. For a response with no \<open>output\<close>, no \<open>output_text\<close>, an \<open>object\<close> other
  than \<open>chat.completion\<close> and a non-empty \<open>choices\<close> list headed by a choice object
  whose \<open>text\<close> is absent, null or a string, \<open>_extract_text\<close> returns that string, or
  the empty string when the field is absent or null, and \<open>_extract_tool_calls\<close> returns
  the empty list.
\<close>

theorem extract_legacy:
  assumes "\<not> has_key data ''output''"
    and "\<not> has_key data ''output_text''"
    and "get data ''object'' JNull \<noteq> JStr ''chat.completion''"
    and "get data ''choices'' JNull = JArr (JObj choice # rest)"
    and "str_or_null choice ''text''"
  shows "extract_text data =
           Inr (case map_of choice ''text'' of Some (JStr s) \<Rightarrow> JStr s | _ \<Rightarrow> JStr []) \<and>
         extract_tool_calls data = Inr []"
proof
  show "extract_text data = Inr (case map_of choice ''text'' of Some (JStr s) \<Rightarrow> JStr s | _ \<Rightarrow> JStr [])"
    using assms
    by (auto simp: extract_text_def str_or_null_def get_def py_or_def
        split: option.splits json.splits)
  show "extract_tool_calls data = Inr []"
    using assms(1,3) by (simp add: extract_tool_calls_def)
qed

theorem extract_legacy_witness:
  "\<not> has_key [(''choices'', JArr [JObj [(''text'', JStr ''x'')]])] ''output'' \<and>
   \<not> has_key [(''choices'', JArr [JObj [(''text'', JStr ''x'')]])] ''output_text'' \<and>
   get [(''choices'', JArr [JObj [(''text'', JStr ''x'')]])] ''object'' JNull
     \<noteq> JStr ''chat.completion'' \<and>
   str_or_null [(''text'', JStr ''x'')] ''text'' \<and>
   extract_text [(''choices'', JArr [JObj [(''text'', JStr ''x'')]])] = Inr (JStr ''x'') \<and>
   extract_tool_calls [(''choices'', JArr [JObj [(''text'', JStr ''x'')]])] = Inr []"
  using extract_legacy
    [of "[(''choices'', JArr [JObj [(''text'', JStr ''x'')]])]" "[(''text'', JStr ''x'')]" "[]"]
  by (simp add: has_key_def get_def str_or_null_def)

subsection \<open>Exceptions\<close>

lemma extract_text_no_exception:
  assumes "text_shape_ok data"
  shows "\<exists>t. extract_text data = Inr t"
proof -
  consider (flat) "has_key data ''output_text''"
    | (structured) "\<not> has_key data ''output_text''" "has_key data ''output''"
    | (chat) "\<not> has_key data ''output_text''" "\<not> has_key data ''output''"
        "get data ''object'' JNull = JStr ''chat.completion''"
    | (legacy) "\<not> has_key data ''output_text''" "\<not> has_key data ''output''"
        "get data ''object'' JNull \<noteq> JStr ''chat.completion''"
    by blast
  then show ?thesis
  proof cases
    case flat
    then show ?thesis
      by (auto simp: extract_text_def has_key_def dict_item_def)
  next
    case structured
    with assms obtain items where items: "get data ''output'' JNull = JArr items"
      "list_all wf_text_item items"
      by (auto simp: text_shape_ok_def split: json.splits)
    from structured(2) items(1) have "get data ''output'' (JArr []) = JArr items"
      by (auto simp: has_key_def get_def)
    then show ?thesis
      using structured output_text_wf [OF items(2)] by (simp add: extract_text_def)
  next
    case chat
    show ?thesis
    proof (cases "truthy (get data ''choices'' JNull)")
      case False
      with chat show ?thesis
        by (simp add: extract_text_def py_or_def)
    next
      case True
      with assms chat obtain c rest m where
        "get data ''choices'' JNull = JArr (JObj c # rest)" "get c ''message'' (JObj []) = JObj m"
        by (auto simp: text_shape_ok_def is_dict_iff split: json.splits list.splits)
      with chat show ?thesis
        by (simp add: extract_text_def py_or_def)
    qed
  next
    case legacy
    show ?thesis
    proof (cases "get data ''choices'' JNull")
      case (JArr choices)
      show ?thesis
      proof (cases choices)
        case Nil
        with JArr legacy show ?thesis
          by (simp add: extract_text_def)
      next
        case (Cons choice rest)
        with assms legacy JArr obtain c where "choice = JObj c"
          by (auto simp: text_shape_ok_def is_dict_iff)
        with Cons JArr legacy show ?thesis
          by (simp add: extract_text_def)
      qed
    qed (use legacy in \<open>simp_all add: extract_text_def\<close>)
  qed
qed

lemma extract_tool_calls_no_exception:
  assumes "calls_shape_ok data"
  shows "\<exists>cs. extract_tool_calls data = Inr cs"
proof -
  consider (responses) "has_key data ''output''"
    | (chat) "\<not> has_key data ''output''" "get data ''object'' JNull = JStr ''chat.completion''"
    | (legacy) "\<not> has_key data ''output''" "get data ''object'' JNull \<noteq> JStr ''chat.completion''"
    by blast
  then show ?thesis
  proof cases
    case responses
    with assms obtain items where items: "get data ''output'' JNull = JArr items"
      "list_all wf_call_item items"
      by (auto simp: calls_shape_ok_def split: json.splits)
    from responses items(1) have "map_of data ''output'' = Some (JArr items)"
      by (auto simp: has_key_def get_def)
    then show ?thesis
      using output_calls_wf [OF items(2)]
      by (simp add: extract_tool_calls_def has_key_def dict_item_def)
  next
    case chat
    show ?thesis
    proof (cases "truthy (get data ''choices'' JNull)")
      case False
      with chat show ?thesis
        by (simp add: extract_tool_calls_def py_or_def)
    next
      case True
      with assms chat obtain c rest m tcs where
        "get data ''choices'' JNull = JArr (JObj c # rest)" "get c ''message'' (JObj []) = JObj m"
        "message_tool_calls (JObj m) = Some tcs" "list_all wf_chat_tool_call tcs"
        by (auto simp: calls_shape_ok_def is_dict_iff split: json.splits list.splits option.splits)
      with chat have "extract_tool_calls data = Inr (map spec_chat_tool_call tcs)"
        by (rule extract_tool_calls_chat_choice)
      then show ?thesis by blast
    qed
  next
    case legacy
    then show ?thesis
      by (simp add: extract_tool_calls_def)
  qed
qed

lemma extract_unrecognized:
  assumes "unrecognized data"
  shows "extract_text data = Inr (JStr []) \<and> extract_tool_calls data = Inr []"
  using assms by (auto simp: unrecognized_def extract_text_def extract_tool_calls_def)

text \<open>
  Claim C1, amended. On a JSON object in which the values the extractors walk through have
  the container types of the three response shapes (\<open>text_shape_ok\<close> for
  \<open>_extract_text\<close>, \<open>calls_shape_ok\<close> for \<open>_extract_tool_calls\<close>) neither function
  raises, and a JSON object that matches none of the shapes is answered by the final
  fallthrough with the empty string and the empty list.
\<close>

theorem extractors_no_exception:
  "(text_shape_ok data \<longrightarrow> (\<exists>t. extract_text data = Inr t)) \<and>
   (calls_shape_ok data \<longrightarrow> (\<exists>cs. extract_tool_calls data = Inr cs)) \<and>
   (unrecognized data \<longrightarrow> extract_text data = Inr (JStr []) \<and> extract_tool_calls data = Inr [])"
  using extract_text_no_exception extract_tool_calls_no_exception extract_unrecognized
  by blast

theorem extractors_no_exception_witness:
  "text_shape_ok [(''id'', JStr ''r1''), (''choices'', JNull)] \<and>
   calls_shape_ok [(''id'', JStr ''r1''), (''choices'', JNull)] \<and>
   unrecognized [(''id'', JStr ''r1''), (''choices'', JNull)] \<and>
   extract_text [(''id'', JStr ''r1''), (''choices'', JNull)] = Inr (JStr []) \<and>
   extract_tool_calls [(''id'', JStr ''r1''), (''choices'', JNull)] = Inr [] \<and>
   text_shape_ok
     [(''output'',
       JArr [JObj [(''type'', JStr ''message''),
                   (''content'', JArr [JObj [(''type'', JStr ''output_text''), (''text'', JStr ''hi'')]])],
             JObj [(''type'', JStr ''function_call''), (''id'', JStr ''fc_1'')]])] \<and>
   calls_shape_ok
     [(''output'',
       JArr [JObj [(''type'', JStr ''message''),
                   (''content'', JArr [JObj [(''type'', JStr ''output_text''), (''text'', JStr ''hi'')]])],
             JObj [(''type'', JStr ''function_call''), (''id'', JStr ''fc_1'')]])] \<and>
   (\<exists>t. extract_text
     [(''output'',
       JArr [JObj [(''type'', JStr ''message''),
                   (''content'', JArr [JObj [(''type'', JStr ''output_text''), (''text'', JStr ''hi'')]])],
             JObj [(''type'', JStr ''function_call''), (''id'', JStr ''fc_1'')]])] = Inr t) \<and>
   (\<exists>cs. extract_tool_calls
     [(''output'',
       JArr [JObj [(''type'', JStr ''message''),
                   (''content'', JArr [JObj [(''type'', JStr ''output_text''), (''text'', JStr ''hi'')]])],
             JObj [(''type'', JStr ''function_call''), (''id'', JStr ''fc_1'')]])] = Inr cs)"
  using extractors_no_exception [of "[(''id'', JStr ''r1''), (''choices'', JNull)]"]
    extractors_no_exception
      [of "[(''output'',
       JArr [JObj [(''type'', JStr ''message''),
                   (''content'', JArr [JObj [(''type'', JStr ''output_text''), (''text'', JStr ''hi'')]])],
             JObj [(''type'', JStr ''function_call''), (''id'', JStr ''fc_1'')]])]"]
  by (simp add: text_shape_ok_def calls_shape_ok_def unrecognized_def has_key_def get_def
      wf_text_item_def wf_content_entry_def wf_call_item_def is_text_entry_def is_call_item_def)

text \<open>
  The claim as stated, for every JSON object, fails where an element of \<open>output\<close> is
  not an object: \<open>item.get\<close> raises AttributeError in both functions.
\<close>

theorem extractors_raise_counterexample:
  "extract_text [(''output'', JArr [JInt 1])] = Inl AttributeError \<and>
   extract_tool_calls [(''output'', JArr [JInt 1])] = Inl AttributeError"
  by (simp add: extract_text_def extract_tool_calls_def has_key_def get_def dict_item_def
      item_parts_def output_item_calls_def dict_get_def)

section \<open>Theorems: ChatMessagesCreate\<close>

lemma message_tool_id_falsy: "\<not> yields_tool_id m \<Longrightarrow> message_tool_id m = JStr []"
  by (auto simp: yields_tool_id_def message_tool_id_def py_or_def
      split: json.splits list.splits if_splits)

lemma find_tc_id_step:
  assumes "is_dict prev"
  shows "find_tc_id (prev # earlier) (JStr []) =
           (if yields_tool_id prev then Inr (message_tool_id prev)
            else find_tc_id earlier (JStr []))"
proof -
  from assms obtain d where prev: "prev = JObj d"
    by (auto simp: is_dict_iff)
  show ?thesis
  proof (cases "get d ''role'' JNull = JStr ''assistant''")
    case False
    then show ?thesis
      by (simp add: prev yields_tool_id_def message_tool_id_def)
  next
    case True
    show ?thesis
    proof (cases "get d ''tool_calls'' JNull")
      case (JArr calls)
      show ?thesis
      proof (cases calls)
        case Nil
        with True JArr show ?thesis
          by (simp add: prev yields_tool_id_def message_tool_id_def)
      next
        case (Cons c cs)
        show ?thesis
        proof (cases "last (c # cs)")
          case (JObj ld)
          with True JArr Cons show ?thesis
            using message_tool_id_falsy [of prev]
            by (auto simp: prev yields_tool_id_def message_tool_id_def Let_def)
        qed (use True JArr Cons in \<open>simp_all add: prev yields_tool_id_def message_tool_id_def\<close>)
      qed
    qed (use True in \<open>simp_all add: prev yields_tool_id_def message_tool_id_def\<close>)
  qed
qed

lemma find_tc_id_find:
  "list_all is_dict ms \<Longrightarrow>
   find_tc_id ms (JStr []) =
     Inr (case find yields_tool_id ms of None \<Rightarrow> JStr [] | Some m \<Rightarrow> message_tool_id m)"
proof (induction ms)
  case Nil
  show ?case by simp
next
  case (Cons prev earlier)
  then have "is_dict prev" "list_all is_dict earlier"
    by simp_all
  with Cons.IH show ?case
    by (simp add: find_tc_id_step del: find_tc_id.simps)
qed

lemma find_yields: "find yields_tool_id ms = Some m \<Longrightarrow> truthy (message_tool_id m)"
  by (auto simp: find_Some_iff yields_tool_id_def)

text \<open>
  Claim C7, amended. For a list of message objects (and an image, if any, that the host
  converts), \<open>ChatMessagesCreate.execute\<close> with role \<open>tool\<close> raises ValueError exactly
  when no assistant message of the list has a non-empty \<open>tool_calls\<close> list whose last
  entry is an object with an \<open>id\<close> or \<open>call_id\<close> that is true in Python's sense;
  otherwise it appends a message whose \<open>tool_call_id\<close> is that id of the nearest such
  assistant message, searching backwards, and returns the serialized list. The search
  passes over assistant messages whose last tool call offers no id.
\<close>

theorem ChatMessagesCreate_tool_call_id:
  assumes "load_messages loads messages_json = Inr messages"
    and "list_all is_dict messages"
    and "build_content_parts tensor_to_data_uri content img = Inr content_parts"
  shows "ChatMessagesCreate_execute loads dumps tensor_to_data_uri messages_json ''tool'' content img =
           (case find yields_tool_id (rev messages) of
              None \<Rightarrow> Inl ValueError
            | Some m \<Rightarrow>
                dumps (JArr (messages @
                  [JObj [(''role'', JStr ''tool''),
                         (''content'', message_content content_parts content),
                         (''tool_call_id'', message_tool_id m)]])))"
proof -
  from assms(2) have "list_all is_dict (rev messages)"
    by (simp add: list_all_iff)
  from find_tc_id_find [OF this] assms(1,3) show ?thesis
    by (auto simp: ChatMessagesCreate_execute_def split: option.splits dest: find_yields)
qed

theorem ChatMessagesCreate_tool_call_id_witness:
  "load_messages
     (\<lambda>s. Inr (JArr
        [JObj [(''role'', JStr ''user''), (''content'', JStr ''2+2?'')],
         JObj [(''role'', JStr ''assistant''),
               (''tool_calls'', JArr [JObj [(''type'', JStr ''function''), (''id'', JStr ''call_1'')]])]]))
     ''[user, assistant]''
     = Inr [JObj [(''role'', JStr ''user''), (''content'', JStr ''2+2?'')],
            JObj [(''role'', JStr ''assistant''),
                  (''tool_calls'', JArr [JObj [(''type'', JStr ''function''), (''id'', JStr ''call_1'')]])]] \<and>
   list_all is_dict
     [JObj [(''role'', JStr ''user''), (''content'', JStr ''2+2?'')],
      JObj [(''role'', JStr ''assistant''),
            (''tool_calls'', JArr [JObj [(''type'', JStr ''function''), (''id'', JStr ''call_1'')]])]] \<and>
   build_content_parts (\<lambda>u :: unit. Inr ''data:image/png'') ''4'' None = Inr [text_part ''4''] \<and>
   ChatMessagesCreate_execute
     (\<lambda>s. Inr (JArr
        [JObj [(''role'', JStr ''user''), (''content'', JStr ''2+2?'')],
         JObj [(''role'', JStr ''assistant''),
               (''tool_calls'', JArr [JObj [(''type'', JStr ''function''), (''id'', JStr ''call_1'')]])]]))
     (\<lambda>v. if v = JArr
             [JObj [(''role'', JStr ''user''), (''content'', JStr ''2+2?'')],
              JObj [(''role'', JStr ''assistant''),
                    (''tool_calls'', JArr [JObj [(''type'', JStr ''function''), (''id'', JStr ''call_1'')]])],
              JObj [(''role'', JStr ''tool''), (''content'', JArr [text_part ''4'']),
                    (''tool_call_id'', JStr ''call_1'')]]
           then Inr ''appended'' else Inl ExternalError)
     (\<lambda>u :: unit. Inr ''data:image/png'') ''[user, assistant]'' ''tool'' ''4'' None
     = Inr ''appended'' \<and>
   load_messages (\<lambda>s. Inr (JArr [JObj [(''role'', JStr ''user'')]])) ''[user]''
     = Inr [JObj [(''role'', JStr ''user'')]] \<and>
   ChatMessagesCreate_execute (\<lambda>s. Inr (JArr [JObj [(''role'', JStr ''user'')]]))
     (\<lambda>v. Inr ''appended'') (\<lambda>u :: unit. Inr ''data:image/png'') ''[user]'' ''tool'' ''4'' None
     = Inl ValueError"
  using
    ChatMessagesCreate_tool_call_id
      [of "\<lambda>s. Inr (JArr
            [JObj [(''role'', JStr ''user''), (''content'', JStr ''2+2?'')],
             JObj [(''role'', JStr ''assistant''),
                   (''tool_calls'', JArr [JObj [(''type'', JStr ''function''), (''id'', JStr ''call_1'')]])]])"
          "''[user, assistant]''"
          "[JObj [(''role'', JStr ''user''), (''content'', JStr ''2+2?'')],
            JObj [(''role'', JStr ''assistant''),
                  (''tool_calls'', JArr [JObj [(''type'', JStr ''function''), (''id'', JStr ''call_1'')]])]]"
          "\<lambda>u :: unit. Inr ''data:image/png''" "''4''" None "[text_part ''4'']"
          "\<lambda>v. if v = JArr
             [JObj [(''role'', JStr ''user''), (''content'', JStr ''2+2?'')],
              JObj [(''role'', JStr ''assistant''),
                    (''tool_calls'', JArr [JObj [(''type'', JStr ''function''), (''id'', JStr ''call_1'')]])],
              JObj [(''role'', JStr ''tool''), (''content'', JArr [text_part ''4'']),
                    (''tool_call_id'', JStr ''call_1'')]]
           then Inr ''appended'' else Inl ExternalError"]
    ChatMessagesCreate_tool_call_id
      [of "\<lambda>s. Inr (JArr [JObj [(''role'', JStr ''user'')]])" "''[user]''"
          "[JObj [(''role'', JStr ''user'')]]"
          "\<lambda>u :: unit. Inr ''data:image/png''" "''4''" None "[text_part ''4'']"
          "\<lambda>v. Inr ''appended''"]
  by (simp add: load_messages_def build_content_parts_def message_content_def
      yields_tool_id_def message_tool_id_def get_def py_or_def)

text \<open>
  The claim as stated takes the id from the first assistant message, searching backwards,
  whose \<open>tool_calls\<close> is a non-empty list. Where the last tool call of that message has
  no id and an earlier assistant message offers one, the claim predicts the error, and the
  code returns the list with the earlier message's id.
\<close>

theorem ChatMessagesCreate_tool_call_id_counterexample:
  "spec_tool_call_id
     [JObj [(''role'', JStr ''assistant''), (''tool_calls'', JArr [JObj [(''id'', JStr ''x'')]])],
      JObj [(''role'', JStr ''assistant''), (''tool_calls'', JArr [JObj [(''id'', JNull)]])]]
     = None \<and>
   ChatMessagesCreate_execute
     (\<lambda>s. Inr (JArr
        [JObj [(''role'', JStr ''assistant''), (''tool_calls'', JArr [JObj [(''id'', JStr ''x'')]])],
         JObj [(''role'', JStr ''assistant''), (''tool_calls'', JArr [JObj [(''id'', JNull)]])]]))
     (\<lambda>v. if v = JArr
             [JObj [(''role'', JStr ''assistant''), (''tool_calls'', JArr [JObj [(''id'', JStr ''x'')]])],
              JObj [(''role'', JStr ''assistant''), (''tool_calls'', JArr [JObj [(''id'', JNull)]])],
              JObj [(''role'', JStr ''tool''), (''content'', JArr []), (''tool_call_id'', JStr ''x'')]]
           then Inr ''appended'' else Inl ExternalError)
     (\<lambda>u :: unit. Inr ''data:image/png'') ''[assistant, assistant]'' ''tool'' [] None
     = Inr ''appended''"
  by (simp add: spec_tool_call_id_def has_tool_calls_def yields_tool_id_def message_tool_id_def
      get_def py_or_def ChatMessagesCreate_execute_def load_messages_def build_content_parts_def
      message_content_def dict_get_def then_do_def)

section \<open>Theorems: json\_path\_select.py and the assistant turn\<close>

lemma str_scalar_None_iff: "str_scalar float_repr v = None \<longleftrightarrow> \<not> isinstance_scalar v"
  by (cases v) simp_all

lemma str_int_examples: "str_int 42 = ''42'' \<and> str_int (- 7) = ''-7'' \<and> str_int 0 = ''0''"
  by code_simp

text \<open>
  Claim C2. When \<open>json.loads\<close> succeeds and \<open>jmespath.search\<close> succeeds with a value
  that is not a str, int, float or bool, \<open>JSONPathSelect.execute\<close> returns the empty
  string: the \<open>return\<close> in the \<open>finally\<close> block replaces the serialization (and any
  exception of \<open>json.dumps\<close>).
\<close>

theorem JSONPathSelect_nonscalar_returns_empty:
  assumes "loads json_text = Inr data"
    and "search path data = Inr current"
    and "\<not> isinstance_scalar current"
  shows "JSONPathSelect_execute loads search float_repr dumps json_text path = Inr []"
proof -
  from assms(3) have "str_scalar float_repr current = None"
    by (simp add: str_scalar_None_iff)
  with assms(1,2) show ?thesis
    by (simp add: JSONPathSelect_execute_def then_do_def try_finally_def)
qed

theorem JSONPathSelect_nonscalar_returns_empty_witness:
  "(\<lambda>s. Inr (JArr [JArr [JInt 1]])) ''[[1]]'' = (Inr (JArr [JArr [JInt 1]]) :: error + json) \<and>
   (\<lambda>p d. subscript0 d) ''[0]'' (JArr [JArr [JInt 1]]) = Inr (JArr [JInt 1]) \<and>
   \<not> isinstance_scalar (JArr [JInt 1]) \<and>
   JSONPathSelect_execute (\<lambda>s. Inr (JArr [JArr [JInt 1]])) (\<lambda>p d. subscript0 d) (\<lambda>f. ''nan'')
     (\<lambda>v. Inr ''[1]'') ''[[1]]'' ''[0]'' = Inr []"
  using JSONPathSelect_nonscalar_returns_empty
    [of "\<lambda>s. Inr (JArr [JArr [JInt 1]])" "''[[1]]''" "JArr [JArr [JInt 1]]" "\<lambda>p d. subscript0 d"
        "''[0]''" "JArr [JInt 1]" "\<lambda>f. ''nan''" "\<lambda>v. Inr ''[1]''"]
  by simp

text \<open>
  Claim C9. For non-empty \<open>json_text\<close> and \<open>path\<close>, when \<open>json.loads\<close> succeeds and
  \<open>jmespath.search\<close> yields a str, int, float or bool, \<open>JSONPathSelect.execute\<close> returns
  the Python string form of that value: the string itself, the decimal digits of an
  integer, \<open>True\<close> or \<open>False\<close>, or the printed float.
\<close>

theorem JSONPathSelect_scalar_returns_str:
  assumes "json_text \<noteq> []"
    and "path \<noteq> []"
    and "loads json_text = Inr data"
    and "search path data = Inr current"
    and "isinstance_scalar current"
  shows "JSONPathSelect_execute loads search float_repr dumps json_text path =
           Inr (case current of
                  JStr s \<Rightarrow> s
                | JInt i \<Rightarrow> str_int i
                | JFloat f \<Rightarrow> float_repr f
                | JBool b \<Rightarrow> (if b then ''True'' else ''False'')
                | _ \<Rightarrow> [])"
  using assms
  by (cases current) (simp_all add: JSONPathSelect_execute_def then_do_def)

theorem JSONPathSelect_scalar_returns_str_witness:
  "''[42]'' \<noteq> [] \<and> ''[0]'' \<noteq> [] \<and>
   (\<lambda>s. Inr (JArr [JInt 42])) ''[42]'' = (Inr (JArr [JInt 42]) :: error + json) \<and>
   (\<lambda>p d. subscript0 d) ''[0]'' (JArr [JInt 42]) = Inr (JInt 42) \<and>
   isinstance_scalar (JInt 42) \<and>
   JSONPathSelect_execute (\<lambda>s. Inr (JArr [JInt 42])) (\<lambda>p d. subscript0 d) (\<lambda>f. ''nan'')
     (\<lambda>v. Inr ''42'') ''[42]'' ''[0]'' = Inr ''42''"
  using JSONPathSelect_scalar_returns_str
    [of "''[42]''" "''[0]''" "\<lambda>s. Inr (JArr [JInt 42])" "JArr [JInt 42]" "\<lambda>p d. subscript0 d"
        "JInt 42" "\<lambda>f. ''nan''" "\<lambda>v. Inr ''42''"] str_int_examples
  by simp

text \<open>
  Claim C6. For every message list, response text and tool-call list, the construction of
  \<open>messages_out\<close> yields a new list object, distinct from the input list, holding the input
  messages followed by one entry with \<open>role = "assistant"\<close>; the entry has a \<open>content\<close>
  field, shaped \<open>[{type: "text", text}]\<close>, exactly when the text is true in Python's sense
  (for a string: non-empty), a \<open>tool_calls\<close> field exactly when the tool-call list is
  non-empty, and no other field. Every list that existed before the call, the input list
  among them, is unchanged.
\<close>

theorem append_assistant_turn_spec:
  assumes "messages < length h"
    and "append_assistant_turn h messages response_text tool_calls = (h', messages_out)"
  shows "(\<forall>r < length h. h' ! r = h ! r) \<and> messages_out \<noteq> messages \<and>
         (\<exists>entry. h' ! messages_out = h ! messages @ [JObj entry] \<and>
            map_of entry ''role'' = Some (JStr ''assistant'') \<and>
            map_of entry ''content'' =
              (if truthy response_text
               then Some (JArr [JObj [(''type'', JStr ''text''), (''text'', response_text)]])
               else None) \<and>
            map_of entry ''tool_calls'' =
              (if tool_calls \<noteq> [] then Some (JArr tool_calls) else None) \<and>
            set (map fst entry) \<subseteq> {''role'', ''content'', ''tool_calls''})"
  using assms
  by (auto simp: append_assistant_turn_def list_copy_def list_append_def assistant_message_def
      nth_append)

theorem append_assistant_turn_spec_witness:
  "(0::nat) < length [[] :: json list] \<and>
   append_assistant_turn [[]] 0 (JStr ''hi'') [] =
     ([[], [JObj [(''role'', JStr ''assistant''),
                  (''content'', JArr [JObj [(''type'', JStr ''text''), (''text'', JStr ''hi'')]])]]], 1) \<and>
   [[], [JObj [(''role'', JStr ''assistant''),
               (''content'', JArr [JObj [(''type'', JStr ''text''), (''text'', JStr ''hi'')]])]]] ! 0
     = [[] :: json list] ! 0"
  using append_assistant_turn_spec [of 0 "[[]]" "JStr ''hi''" "[]" _ 1]
  by (simp add: append_assistant_turn_def list_copy_def list_append_def assistant_message_def)

section \<open>Theorems: wan\_video\_size.py\<close>

text \<open>
  Claim C10. For each of the presets 480p, 720p and 1080p and any image, forcing the
  orientation landscape returns a pair \<open>(w, h)\<close>, forcing portrait returns the swapped pair
  \<open>(h, w)\<close>, and forcing square returns a pair whose width equals its height.
\<close>

theorem WanVideoSize_orientation_swap:
  "resolution \<in> {''480p'', ''720p'', ''1080p''} \<Longrightarrow>
   \<exists>w h s.
     WanVideoSize_execute below_threshold (Some shape) resolution ''landscape'' = Inr (w, h) \<and>
     WanVideoSize_execute below_threshold (Some shape) resolution ''portrait'' = Inr (h, w) \<and>
     WanVideoSize_execute below_threshold (Some shape) resolution ''square'' = Inr (s, s)"
  by (auto simp: WanVideoSize_execute_def SIZE_TABLE_def)

theorem WanVideoSize_orientation_swap_witness:
  "''720p'' \<in> {''480p'', ''720p'', ''1080p''} \<and>
   (\<exists>w h s.
     WanVideoSize_execute (\<lambda>d m. False) (Some [1, 720, 1280, 3]) ''720p'' ''landscape'' = Inr (w, h) \<and>
     WanVideoSize_execute (\<lambda>d m. False) (Some [1, 720, 1280, 3]) ''720p'' ''portrait'' = Inr (h, w) \<and>
     WanVideoSize_execute (\<lambda>d m. False) (Some [1, 720, 1280, 3]) ''720p'' ''square'' = Inr (s, s))"
  using WanVideoSize_orientation_swap [of "''720p''" "\<lambda>d m. False" "[1, 720, 1280, 3]"]
  by simp

end
